theory Spec2Isabelle
  imports Complex_Main "HOL-Library.Sublist" "HOL-Library.Product_Lexorder"
begin

section \<open>Strings of the line handler\<close>

text \<open>
  A line read by \<^verbatim>\<open>readline\<close> is a JavaScript string. It is modelled as a \<open>string\<close>
  of 8-bit code units, the Latin-1 range of JavaScript's UTF-16 code units; on that range
  \<^verbatim>\<open>String.prototype.trim\<close> and \<^verbatim>\<open>String.prototype.toLowerCase\<close> are as below.
\<close>

definition isWhiteSpace :: "char \<Rightarrow> bool" where
  \<comment> \<open>WhiteSpace and LineTerminator of ECMAScript below U+0100: TAB, LF, VT, FF, CR, SP, NBSP.\<close>
  "isWhiteSpace c = (of_char c \<in> {9, 10, 11, 12, 13, 32, 160 :: nat})"

definition trim :: "string \<Rightarrow> string" where
  "trim s = rev (dropWhile isWhiteSpace (rev (dropWhile isWhiteSpace s)))"

definition lowerChar :: "char \<Rightarrow> char" where
  \<comment> \<open>A-Z, and the Latin-1 capitals U+00C0 to U+00DE without the multiplication sign U+00D7.\<close>
  "lowerChar c =
     (let n = (of_char c :: nat)
      in if (65 \<le> n \<and> n \<le> 90) \<or> (192 \<le> n \<and> n \<le> 222 \<and> n \<noteq> 215)
         then char_of (n + 32) else c)"

definition toLowerCase :: "string \<Rightarrow> string" where
  "toLowerCase s = map lowerChar s"

fun join :: "string \<Rightarrow> string list \<Rightarrow> string" where
  \<comment> \<open>\<^verbatim>\<open>Array.prototype.join\<close> on an array of strings.\<close>
  "join sep [] = []"
| "join sep [x] = x"
| "join sep (x # y # ys) = x @ sep @ join sep (y # ys)"

definition blankLine :: string where
  \<comment> \<open>The separator \<^verbatim>\<open>"\n\n"\<close> of line 108.\<close>
  "blankLine = [CHR 0x0A, CHR 0x0A]"

section \<open>Data of the assistant\<close>

datatype error_name =
  ConfigError | SourceUnavailable | EmbeddingError | DimensionMismatch | EmptyIndex
  | GenerationError | OtherError

text \<open>A thrown JavaScript \<^verbatim>\<open>Error\<close>: the handler of line 121 reads its \<^verbatim>\<open>message\<close>.\<close>

datatype error = Error (name: error_name) (message: string)

text \<open>
  \<^verbatim>\<open>Document({ pageContent, metadata: { source } })\<close>. The spec calls a chunk a Segment
  \<open>{text, sourceLocator, sequenceIndex}\<close>: \<open>pageContent\<close> is its text, \<open>source\<close> its locator,
  and \<open>sequenceIndex\<close> its position among the chunks of the document.
\<close>

record document =
  pageContent :: string
  source :: string
  sequenceIndex :: nat

text \<open>The \<^verbatim>\<open>Response\<close> of \<^verbatim>\<open>node-fetch\<close>; \<open>body\<close> is what \<^verbatim>\<open>response.text()\<close> settles to.\<close>

record response =
  ok :: bool
  statusText :: string
  body :: "error + string"

type_synonym message = "string \<times> string"

text \<open>
  What the process prints and which collaborators it calls, in order. The timing output
  of \<^verbatim>\<open>console.time\<close> is left out.
\<close>

datatype event =
    Starting
  | ReceivedUrl string
  | DownloadFailed string
  | ChunksCreated nat
  | StoreCreated
  | StoreFailed error
  | UncaughtRejection error
  | ReadyBanner
  | Prompt
  | Goodbye
  | Close
  | Retrieve string
  | FoundChunks nat
  | Format string string
  | Invoke "message list"
  | Answer string
  | ProcessingError string

text \<open>
  The collaborators of the one-time indexing phase. Each is a library call of
  \<^verbatim>\<open>main\<close> that may throw: \<^verbatim>\<open>fetch(url)\<close>, \<^verbatim>\<open>splitter.splitDocuments(docs)\<close> of
  the splitter configured at lines 29 to 33, and \<^verbatim>\<open>MemoryVectorStore.fromDocuments(chunks, embeddings)\<close>.
\<close>

record 'store env =
  fetch :: "string \<Rightarrow> error + response"
  splitDocuments :: "document list \<Rightarrow> error + document list"
  fromDocuments :: "document list \<Rightarrow> error + 'store"

text \<open>
  The collaborators of one question, as they behave while that question is handled:
  \<^verbatim>\<open>vectorStore.asRetriever({ k: 5 }).getRelevantDocuments(question)\<close> (which embeds the
  question), \<^verbatim>\<open>promptTemplate.formatMessages({ context, question })\<close> and
  \<^verbatim>\<open>llm.invoke(promptMessages)\<close>, whose result is read at \<^verbatim>\<open>response.content\<close>.
\<close>

record 'store services =
  getRelevantDocuments :: "'store \<Rightarrow> string \<Rightarrow> error + document list"
  formatMessages :: "string \<Rightarrow> string \<Rightarrow> error + message list"
  invoke :: "message list \<Rightarrow> error + string"

datatype 'store outcome = Exited nat | Rejected error | Ready 'store

record session =
  closed :: bool
  trace :: "event list"

section \<open>The program\<close>

text \<open>
  \<^verbatim>\<open>main\<close>, lines 10 to 90, from the URL the prompt of line 14 resolved to.
  \<open>Exited n\<close> is \<^verbatim>\<open>process.exit(n)\<close>; \<open>Rejected e\<close> is an exception that no
  \<^verbatim>\<open>try\<close> of \<open>main\<close> encloses, so that the promise of \<open>main\<close> rejects; \<open>Ready\<close> is
  the state in which the \<^verbatim>\<open>line\<close> handler is installed and the first prompt shown.
\<close>

definition main :: "'store env \<Rightarrow> string \<Rightarrow> event list \<times> 'store outcome" where
  "main env url =
     (let t0 = [Starting, ReceivedUrl url] in
      case fetch env url of
        Inl e \<Rightarrow> (t0, Rejected e)
      | Inr response \<Rightarrow>
          if \<not> ok response then (t0 @ [DownloadFailed (statusText response)], Exited 1)
          else
            (case body response of
               Inl e \<Rightarrow> (t0, Rejected e)
             | Inr markdown \<Rightarrow>
                 (case splitDocuments env
                         [\<lparr>pageContent = markdown, source = url, sequenceIndex = 0\<rparr>] of
                    Inl e \<Rightarrow> (t0, Rejected e)
                  | Inr chunks \<Rightarrow>
                      (let t1 = t0 @ [ChunksCreated (length chunks)] in
                       case fromDocuments env chunks of
                         Inl err \<Rightarrow> (t1 @ [StoreFailed err], Exited 1)
                       | Inr vectorStore \<Rightarrow>
                           (t1 @ [StoreCreated, ReadyBanner, Prompt], Ready vectorStore)))))"

text \<open>The body of the \<^verbatim>\<open>try\<close> of lines 99 to 119: the events up to the first exception, and the outcome.\<close>

definition try_block :: "'store services \<Rightarrow> 'store \<Rightarrow> string \<Rightarrow> event list \<times> (error + string)" where
  "try_block sv vectorStore question =
     (case getRelevantDocuments sv vectorStore question of
        Inl err \<Rightarrow> ([Retrieve question], Inl err)
      | Inr relevantDocs \<Rightarrow>
          (let ctx = join blankLine (map pageContent relevantDocs);
               t = [Retrieve question, FoundChunks (length relevantDocs), Format ctx question]
           in case formatMessages sv ctx question of
                Inl err \<Rightarrow> (t, Inl err)
              | Inr promptMessages \<Rightarrow>
                  (case invoke sv promptMessages of
                     Inl err \<Rightarrow> (t @ [Invoke promptMessages], Inl err)
                   | Inr answer \<Rightarrow> (t @ [Invoke promptMessages, Answer answer], Inr answer))))"

text \<open>The \<^verbatim>\<open>line\<close> handler, lines 92 to 124, run to completion on one line.\<close>

definition on_line :: "'store services \<Rightarrow> 'store \<Rightarrow> session \<Rightarrow> string \<Rightarrow> session" where
  "on_line sv vectorStore st line =
     (let question = trim line in
      if toLowerCase question = ''exit''
      then st\<lparr>closed := True, trace := trace st @ [Goodbye, Close]\<rparr>
      else
        (case try_block sv vectorStore question of
           (t, Inl err) \<Rightarrow> st\<lparr>trace := trace st @ t @ [ProcessingError (message err), Prompt]\<rparr>
         | (t, Inr answer) \<Rightarrow> st\<lparr>trace := trace st @ t @ [Prompt]\<rparr>))"

text \<open>
  The lines that arrive, each with the collaborators as they behave while it is handled.
  After \<^verbatim>\<open>rl.close()\<close> the interface emits no further \<^verbatim>\<open>line\<close> event.
\<close>

fun run_lines :: "'store \<Rightarrow> session \<Rightarrow> ('store services \<times> string) list \<Rightarrow> session" where
  "run_lines vectorStore st [] = st"
| "run_lines vectorStore st ((sv, line) # rest) =
     (if closed st then st else run_lines vectorStore (on_line sv vectorStore st line) rest)"

text \<open>
  The process of \<^verbatim>\<open>main();\<close> (line 127): its exit status and what it printed. The call
  has no rejection handler, and Node.js ends a process whose promise rejects unhandled
  with the error printed and status 1.
\<close>

definition program :: "'store env \<Rightarrow> string \<Rightarrow> ('store services \<times> string) list \<Rightarrow> nat \<times> event list" where
  "program env url lines =
     (case main env url of
        (t, Exited n) \<Rightarrow> (n, t)
      | (t, Rejected e) \<Rightarrow> (1, t @ [UncaughtRejection e])
      | (t, Ready vectorStore) \<Rightarrow>
          (0, trace (run_lines vectorStore \<lparr>closed = False, trace = t\<rparr> lines)))"

section \<open>The vector index\<close>

text \<open>
  The vector store of \<^verbatim>\<open>langchain/vectorstores/memory\<close> is a dependency of the program:
  \<open>main\<close> only calls it. The definitions of this section follow section 4.2 of the spec.
  A score is a real number here, where the program computes with floating point.
\<close>

text \<open>Modelled from the spec: the Vector of section 3, an ordered sequence of numbers.\<close>

type_synonym vector = "real list"

text \<open>Modelled from the spec: the IndexEntry \<open>{vector, segment}\<close> of section 3.\<close>

record index_entry =
  vector :: vector
  segment :: document

text \<open>
  Modelled from the spec: the Index, the entries in the order they were loaded with
  their common dimensionality \<open>D\<close>.
\<close>

record index =
  dimension :: nat
  entries :: "index_entry list"

text \<open>
  Modelled from the spec: \<open>build(entries)\<close>, which "fails with DimensionMismatch if
  vectors have differing lengths, fails with EmptyIndex if the sequence is empty". The
  code of the index builder is not part of the source.
\<close>

definition build :: "(vector \<times> document) list \<Rightarrow> error + index" where
  "build es =
     (case es of
        [] \<Rightarrow> Inl (Error EmptyIndex [])
      | (v, d) # rest \<Rightarrow>
          if list_ex (\<lambda>(w, d'). length w \<noteq> length v) rest then Inl (Error DimensionMismatch [])
          else Inr \<lparr>dimension = length v,
                    entries = map (\<lambda>(w, d'). \<lparr>vector = w, segment = d'\<rparr>) es\<rparr>)"

text \<open>Modelled from the spec: the dot product of the cosine similarity.\<close>

definition dot :: "vector \<Rightarrow> vector \<Rightarrow> real" where
  "dot a b = sum_list (map2 (*) a b)"

text \<open>
  Modelled from the spec: "cosine similarity, dot(a,b) / (norm a * norm b)", where "a
  zero-norm stored or query vector yields a defined similarity of 0".
\<close>

definition cosine :: "vector \<Rightarrow> vector \<Rightarrow> real" where
  "cosine a b =
     (if dot a a = 0 \<or> dot b b = 0 then 0 else dot a b / (sqrt (dot a a) * sqrt (dot b b)))"

text \<open>
  Modelled from the spec: \<open>query(queryVector, k)\<close>, which fails with DimensionMismatch
  when the query's length differs from \<open>D\<close>, scores every stored vector, "sorts
  descending by score; ties broken by ascending sequenceIndex (stable, deterministic)",
  and returns at most \<open>k\<close> results (\<open>k\<close> clamped to the number of entries). The code of
  the retriever is not part of the source.
\<close>

definition query :: "index \<Rightarrow> vector \<Rightarrow> nat \<Rightarrow> error + (document \<times> real) list" where
  "query idx queryVector k =
     (if length queryVector \<noteq> dimension idx then Inl (Error DimensionMismatch [])
      else Inr (take k (sort_key (\<lambda>(d, score). (- score, sequenceIndex d))
                          (map (\<lambda>e. (segment e, cosine queryVector (vector e))) (entries idx)))))"

text \<open>
  Modelled from the spec: the build phase of section 2, "segments, Embedder, vectors,
  Vector Index", with the Embedder a capability that may fail. It stands for
  \<^verbatim>\<open>MemoryVectorStore.fromDocuments(chunks, embeddings)\<close>, whose code is not part of the source.
\<close>

fun embed_all :: "(string \<Rightarrow> error + vector) \<Rightarrow> document list \<Rightarrow> error + (vector \<times> document) list" where
  "embed_all embedder [] = Inr []"
| "embed_all embedder (d # ds) =
     (case embedder (pageContent d) of
        Inl e \<Rightarrow> Inl e
      | Inr v \<Rightarrow> (case embed_all embedder ds of Inl e \<Rightarrow> Inl e | Inr es \<Rightarrow> Inr ((v, d) # es)))"

text \<open>Modelled from the spec: embedding the chunks and building the Index from them.\<close>

definition index_documents :: "(string \<Rightarrow> error + vector) \<Rightarrow> document list \<Rightarrow> error + index" where
  "index_documents embedder chunks =
     (case embed_all embedder chunks of Inl e \<Rightarrow> Inl e | Inr es \<Rightarrow> build es)"

section \<open>The chunker\<close>

text \<open>
  The splitter of \<^verbatim>\<open>@langchain/textsplitters\<close> is a dependency of the program: \<open>main\<close>
  configures it (lines 29 to 33) and calls it. The definitions of this section follow
  the algorithm of section 4.1 of the spec, step by step.
\<close>

text \<open>
  Modelled from the spec: a piece of step 2 with the text that joins it to what is before
  it in a window (step 5): "a single space when they were produced via a whitespace-like
  separator, or directly when produced via the empty separator".
\<close>

record piece =
  glue :: string
  content :: string

text \<open>
  Modelled from the spec: step 2, "split text into pieces at every occurrence of that
  separator (separator itself is dropped)", for a separator that is not empty. The
  occurrences are taken from left to right; \<open>skip\<close> counts the characters of a found
  occurrence that are still to be dropped.
\<close>

fun split_from :: "string \<Rightarrow> nat \<Rightarrow> string \<Rightarrow> string \<Rightarrow> string list" where
  "split_from sep skip acc [] = [acc]"
| "split_from sep skip acc (c # cs) =
     (if 0 < skip then split_from sep (skip - 1) acc cs
      else if prefix sep (c # cs) then acc # split_from sep (length sep - 1) [] cs
      else split_from sep 0 (acc @ [c]) cs)"

text \<open>
  Modelled from the spec: step 2 for any separator, "the empty-string separator ...
  splits between every character".
\<close>

definition split_on :: "string \<Rightarrow> string \<Rightarrow> string list" where
  "split_on sep t = (if sep = [] then map (\<lambda>c. [c]) t else split_from sep 0 [] t)"

text \<open>Modelled from the spec: the joining text of step 5 for the pieces of a separator.\<close>

definition glue_of :: "string \<Rightarrow> string" where
  "glue_of sep = (if sep = [] then [] else '' '')"

text \<open>
  Modelled from the spec: steps 1 to 3. A text within \<open>maxSize\<close> is one piece; otherwise
  the first separator that occurs in it splits it, the pieces of length zero are
  filtered out, and a piece that still exceeds \<open>maxSize\<close> is split with the remaining
  separators. A text that no remaining separator divides is kept whole.
\<close>

fun pieces :: "nat \<Rightarrow> string list \<Rightarrow> string \<Rightarrow> string \<Rightarrow> piece list" where
  "pieces maxSize [] g t = [\<lparr>glue = g, content = t\<rparr>]"
| "pieces maxSize (sep # seps) g t =
     (if length t \<le> maxSize then [\<lparr>glue = g, content = t\<rparr>]
      else if \<not> sublist sep t then pieces maxSize seps g t
      else concat (map (pieces maxSize seps (glue_of sep))
                     (filter (\<lambda>p. p \<noteq> []) (split_on sep t))))"

text \<open>Modelled from the spec: "the trailing overlap characters" of a closed window (step 4).\<close>

definition trailing :: "nat \<Rightarrow> string \<Rightarrow> string" where
  "trailing n s = drop (length s - n) s"

text \<open>Modelled from the spec: a piece added to the running buffer, joined as step 5 says.\<close>

definition add_piece :: "string \<Rightarrow> piece \<Rightarrow> string" where
  "add_piece buf p = (if buf = [] then content p else buf @ glue p @ content p)"

text \<open>
  Modelled from the spec: step 4, "accumulate pieces into a running buffer; whenever
  adding the next piece would exceed maxSize, close the current window as a Segment, then
  start the next window by first copying the trailing overlap characters ... from the
  closed window into the new buffer before continuing to add pieces". The spec leaves
  open (its section 9) what happens when the next piece does not fit beside the copied
  characters; here the piece is added to them.
\<close>

fun pack :: "nat \<Rightarrow> nat \<Rightarrow> string \<Rightarrow> piece list \<Rightarrow> string list" where
  "pack maxSize overlap buf [] = (if buf = [] then [] else [buf])"
| "pack maxSize overlap buf (p # ps) =
     (if buf \<noteq> [] \<and> maxSize < length (add_piece buf p)
      then buf # pack maxSize overlap (add_piece (trailing overlap buf) p) ps
      else pack maxSize overlap (add_piece buf p) ps)"

text \<open>
  Modelled from the spec: \<open>chunk(text, maxSize, overlap, separators)\<close>, the texts of the
  Segments in order; it fails with ConfigError unless \<open>0 < maxSize\<close> and
  \<open>0 \<le> overlap < maxSize\<close>, and an empty text gives no Segment.
\<close>

definition chunk :: "string \<Rightarrow> int \<Rightarrow> int \<Rightarrow> string list \<Rightarrow> error + string list" where
  "chunk t maxSize overlap separators =
     (if \<not> (0 < maxSize \<and> 0 \<le> overlap \<and> overlap < maxSize) then Inl (Error ConfigError [])
      else if t = [] then Inr []
      else Inr (pack (nat maxSize) (nat overlap) [] (pieces (nat maxSize) separators [] t)))"

section \<open>The line handler\<close>


lemma on_line_question:
  "toLowerCase (trim line) \<noteq> ''exit'' \<Longrightarrow>
   on_line sv vs st line =
     (case try_block sv vs (trim line) of
        (t, Inl err) \<Rightarrow> st\<lparr>trace := trace st @ t @ [ProcessingError (message err), Prompt]\<rparr>
      | (t, Inr answer) \<Rightarrow> st\<lparr>trace := trace st @ t @ [Prompt]\<rparr>)"
  by (simp add: on_line_def)




lemma try_block_retrieve_fails:
  "getRelevantDocuments sv vs q = Inl err \<Longrightarrow> try_block sv vs q = ([Retrieve q], Inl err)"
  by (simp add: try_block_def)

lemma try_block_format_fails:
  "getRelevantDocuments sv vs q = Inr docs \<Longrightarrow>
   formatMessages sv (join blankLine (map pageContent docs)) q = Inl err \<Longrightarrow>
   try_block sv vs q =
     ([Retrieve q, FoundChunks (length docs), Format (join blankLine (map pageContent docs)) q],
      Inl err)"
  by (simp add: try_block_def)

lemma try_block_invoke_fails:
  "getRelevantDocuments sv vs q = Inr docs \<Longrightarrow>
   formatMessages sv (join blankLine (map pageContent docs)) q = Inr msgs \<Longrightarrow>
   invoke sv msgs = Inl err \<Longrightarrow>
   try_block sv vs q =
     ([Retrieve q, FoundChunks (length docs), Format (join blankLine (map pageContent docs)) q,
       Invoke msgs], Inl err)"
  by (simp add: try_block_def)

lemma try_block_answers:
  "getRelevantDocuments sv vs q = Inr docs \<Longrightarrow>
   formatMessages sv (join blankLine (map pageContent docs)) q = Inr msgs \<Longrightarrow>
   invoke sv msgs = Inr answer \<Longrightarrow>
   try_block sv vs q =
     ([Retrieve q, FoundChunks (length docs), Format (join blankLine (map pageContent docs)) q,
       Invoke msgs, Answer answer], Inr answer)"
  by (simp add: try_block_def)

lemma on_line_fails:
  "toLowerCase (trim line) \<noteq> ''exit'' \<Longrightarrow> try_block sv vs (trim line) = (t, Inl err) \<Longrightarrow>
   on_line sv vs st line = st\<lparr>trace := trace st @ t @ [ProcessingError (message err), Prompt]\<rparr>"
  by (simp add: on_line_question)

lemma on_line_answers:
  "toLowerCase (trim line) \<noteq> ''exit'' \<Longrightarrow> try_block sv vs (trim line) = (t, Inr answer) \<Longrightarrow>
   on_line sv vs st line = st\<lparr>trace := trace st @ t @ [Prompt]\<rparr>"
  by (simp add: on_line_question)

lemma toLowerCase_Nil: "toLowerCase [] \<noteq> ''exit''"
  by (simp add: toLowerCase_def)

text \<open>
  C10. A line that trims to the empty string is not the exit word, and the handler has no
  other guard: it retrieves for the empty question, formats the prompt and calls the
  language model with it, then prompts again.
\<close>

theorem blank_line_is_answered:
  assumes "trim line = []"
    and "getRelevantDocuments sv vs [] = Inr docs"
    and "formatMessages sv (join blankLine (map pageContent docs)) [] = Inr msgs"
  shows "on_line sv vs st line =
           st\<lparr>trace := trace st
                 @ [Retrieve [], FoundChunks (length docs),
                    Format (join blankLine (map pageContent docs)) [], Invoke msgs]
                 @ (case invoke sv msgs of
                      Inl err \<Rightarrow> [ProcessingError (message err)]
                    | Inr answer \<Rightarrow> [Answer answer])
                 @ [Prompt]\<rparr>"
proof (cases "invoke sv msgs")
  case (Inl err)
  with assms show ?thesis
    by (simp add: on_line_fails [OF _ try_block_invoke_fails] toLowerCase_Nil)
next
  case (Inr answer)
  with assms show ?thesis
    by (simp add: on_line_answers [OF _ try_block_answers] toLowerCase_Nil)
qed

theorem blank_line_is_answered_witness:
  "trim ''   '' = [] \<and>
   on_line \<lparr>getRelevantDocuments = (\<lambda>vs q. Inr [\<lparr>pageContent = ''intro'', source = ''u'', sequenceIndex = 0\<rparr>]),
            formatMessages = (\<lambda>c q. Inr [(''system'', c), (''human'', q)]),
            invoke = (\<lambda>ms. Inr ''an answer'')\<rparr>
     (0::nat) \<lparr>closed = False, trace = [Prompt]\<rparr> ''   ''
     = \<lparr>closed = False,
        trace = [Prompt, Retrieve [], FoundChunks 1, Format ''intro'' [],
                 Invoke [(''system'', ''intro''), (''human'', [])], Answer ''an answer'', Prompt]\<rparr>"
proof -
  have a: "trim ''   '' = []"
    by code_simp
  show ?thesis
    using a blank_line_is_answered [OF a, where st = "\<lparr>closed = False, trace = [Prompt]\<rparr>" and vs = "0::nat"
        and sv = "\<lparr>getRelevantDocuments = (\<lambda>vs q. Inr [\<lparr>pageContent = ''intro'', source = ''u'', sequenceIndex = 0\<rparr>]),
            formatMessages = (\<lambda>c q. Inr [(''system'', c), (''human'', q)]),
            invoke = (\<lambda>ms. Inr ''an answer'')\<rparr>"
        and docs = "[\<lparr>pageContent = ''intro'', source = ''u'', sequenceIndex = 0\<rparr>]"
        and msgs = "[(''system'', ''intro''), (''human'', [])]"]
    by simp
qed



text \<open>
  C5. When retrieval (with the embedding of the question), the formatting of the prompt
  or the call of the language model throws for a question, the handler catches the
  exception, prints its message and prompts again: the session stays open. A following
  question for which all three succeed is answered.
\<close>

theorem failed_question_keeps_session:
  assumes "\<not> closed st"
    and "toLowerCase (trim l1) \<noteq> ''exit''"
    and "toLowerCase (trim l2) \<noteq> ''exit''"
    and "getRelevantDocuments sv1 vs (trim l1) = Inl err
         \<or> (\<exists>docs. getRelevantDocuments sv1 vs (trim l1) = Inr docs
              \<and> (formatMessages sv1 (join blankLine (map pageContent docs)) (trim l1) = Inl err
                  \<or> (\<exists>msgs. formatMessages sv1 (join blankLine (map pageContent docs)) (trim l1) = Inr msgs
                        \<and> invoke sv1 msgs = Inl err)))"
    and "getRelevantDocuments sv2 vs (trim l2) = Inr docs2"
    and "formatMessages sv2 (join blankLine (map pageContent docs2)) (trim l2) = Inr msgs2"
    and "invoke sv2 msgs2 = Inr answer"
  shows "run_lines vs st [(sv1, l1)] =
           st\<lparr>trace := trace st @ fst (try_block sv1 vs (trim l1))
                          @ [ProcessingError (message err), Prompt]\<rparr>
         \<and> run_lines vs st [(sv1, l1), (sv2, l2)] =
           st\<lparr>trace := trace st @ fst (try_block sv1 vs (trim l1))
                          @ [ProcessingError (message err), Prompt]
                          @ [Retrieve (trim l2), FoundChunks (length docs2),
                             Format (join blankLine (map pageContent docs2)) (trim l2),
                             Invoke msgs2, Answer answer, Prompt]\<rparr>"
proof -
  have "snd (try_block sv1 vs (trim l1)) = Inl err"
    using assms(4)
    by (auto simp: try_block_retrieve_fails try_block_format_fails try_block_invoke_fails)
  then have first: "on_line sv1 vs st l1 =
      st\<lparr>trace := trace st @ fst (try_block sv1 vs (trim l1)) @ [ProcessingError (message err), Prompt]\<rparr>"
    using on_line_fails [OF assms(2), of sv1 vs "fst (try_block sv1 vs (trim l1))" err st]
    by (simp add: prod_eq_iff)
  have second: "on_line sv2 vs s l2 =
      s\<lparr>trace := trace s @ [Retrieve (trim l2), FoundChunks (length docs2),
                             Format (join blankLine (map pageContent docs2)) (trim l2),
                             Invoke msgs2, Answer answer] @ [Prompt]\<rparr>" for s
    using on_line_answers [OF assms(3) try_block_answers [OF assms(5) assms(6) assms(7)]] .
  show ?thesis
    using assms(1) by (simp add: first second)
qed

theorem failed_question_keeps_session_witness:
  "run_lines (0::nat) \<lparr>closed = False, trace = []\<rparr>
     [(\<lparr>getRelevantDocuments = (\<lambda>vs q. Inr [\<lparr>pageContent = ''a'', source = ''u'', sequenceIndex = 0\<rparr>]),
        formatMessages = (\<lambda>c q. Inr [(''system'', c), (''human'', q)]),
        invoke = (\<lambda>ms. Inl (Error GenerationError ''model is down''))\<rparr>, ''one''),
      (\<lparr>getRelevantDocuments = (\<lambda>vs q. Inr [\<lparr>pageContent = ''a'', source = ''u'', sequenceIndex = 0\<rparr>]),
        formatMessages = (\<lambda>c q. Inr [(''system'', c), (''human'', q)]),
        invoke = (\<lambda>ms. Inr ''an answer'')\<rparr>, ''two'')]
   = \<lparr>closed = False,
      trace = [Retrieve ''one'', FoundChunks 1, Format ''a'' ''one'',
               Invoke [(''system'', ''a''), (''human'', ''one'')],
               ProcessingError ''model is down'', Prompt,
               Retrieve ''two'', FoundChunks 1, Format ''a'' ''two'',
               Invoke [(''system'', ''a''), (''human'', ''two'')], Answer ''an answer'', Prompt]\<rparr>"
proof -
  have a: "toLowerCase (trim ''one'') \<noteq> ''exit''" "toLowerCase (trim ''two'') \<noteq> ''exit''"
    by code_simp+
  have b: "trim ''one'' = ''one''" "trim ''two'' = ''two''"
    by code_simp+
  have c: "\<not> closed \<lparr>closed = False, trace = []\<rparr>"
    by simp
  show ?thesis
    using failed_question_keeps_session [OF c a, where vs = "0::nat"
        and ?sv1.0 = "\<lparr>getRelevantDocuments = (\<lambda>vs q. Inr [\<lparr>pageContent = ''a'', source = ''u'', sequenceIndex = 0\<rparr>]),
              formatMessages = (\<lambda>c q. Inr [(''system'', c), (''human'', q)]),
              invoke = (\<lambda>ms. Inl (Error GenerationError ''model is down''))\<rparr>"
        and ?sv2.0 = "\<lparr>getRelevantDocuments = (\<lambda>vs q. Inr [\<lparr>pageContent = ''a'', source = ''u'', sequenceIndex = 0\<rparr>]),
              formatMessages = (\<lambda>c q. Inr [(''system'', c), (''human'', q)]),
              invoke = (\<lambda>ms. Inr ''an answer'')\<rparr>"
        and err = "Error GenerationError ''model is down''"
        and ?docs2.0 = "[\<lparr>pageContent = ''a'', source = ''u'', sequenceIndex = 0\<rparr>]"
        and ?msgs2.0 = "[(''system'', ''a''), (''human'', ''two'')]"
        and answer = "''an answer''"]
    by (simp add: b try_block_def Let_def del: run_lines.simps)
qed

section \<open>The indexing phase\<close>

text \<open>
  C7. Whatever fails while the document is fetched, chunked, embedded and indexed, the
  process ends with status 1 after a diagnostic, and the lines of the operator are never
  read. A response that is not ok and a failure to build the vector store (an embedding
  error, a dimension mismatch, or any other exception of the builder) are reported by
  \<open>main\<close> itself before \<^verbatim>\<open>process.exit(1)\<close>; an exception of \<^verbatim>\<open>fetch\<close>, of
  \<^verbatim>\<open>response.text()\<close> or of the splitter rejects the promise of \<open>main\<close>, which ends the
  process with the error printed.
\<close>

theorem indexing_failure_is_fatal:
  "(fetch env url = Inl e \<longrightarrow>
      program env url lines = (1, [Starting, ReceivedUrl url, UncaughtRejection e]))
   \<and> (fetch env url = Inr r \<and> \<not> ok r \<longrightarrow>
      program env url lines = (1, [Starting, ReceivedUrl url, DownloadFailed (statusText r)]))
   \<and> (fetch env url = Inr r \<and> ok r \<and> body r = Inl e \<longrightarrow>
      program env url lines = (1, [Starting, ReceivedUrl url, UncaughtRejection e]))
   \<and> (fetch env url = Inr r \<and> ok r \<and> body r = Inr markdown
        \<and> splitDocuments env [\<lparr>pageContent = markdown, source = url, sequenceIndex = 0\<rparr>] = Inl e \<longrightarrow>
      program env url lines = (1, [Starting, ReceivedUrl url, UncaughtRejection e]))
   \<and> (fetch env url = Inr r \<and> ok r \<and> body r = Inr markdown
        \<and> splitDocuments env [\<lparr>pageContent = markdown, source = url, sequenceIndex = 0\<rparr>] = Inr chunks
        \<and> fromDocuments env chunks = Inl e \<longrightarrow>
      program env url lines =
        (1, [Starting, ReceivedUrl url, ChunksCreated (length chunks), StoreFailed e]))"
  by (simp add: program_def main_def)

theorem indexing_failure_is_fatal_witness:
  "program \<lparr>fetch = (\<lambda>u. Inl (Error SourceUnavailable ''no route'')),
            splitDocuments = (\<lambda>ds. Inr ds), fromDocuments = (\<lambda>ds. Inr (0::nat))\<rparr> ''u''
      [(\<lparr>getRelevantDocuments = (\<lambda>vs q. Inr []), formatMessages = (\<lambda>c q. Inr []),
         invoke = (\<lambda>ms. Inr ''fine'')\<rparr>, ''a question'')]
     = (1, [Starting, ReceivedUrl ''u'', UncaughtRejection (Error SourceUnavailable ''no route'')])
   \<and> program \<lparr>fetch = (\<lambda>u. Inr \<lparr>ok = False, statusText = ''Not Found'', body = Inr []\<rparr>),
            splitDocuments = (\<lambda>ds. Inr ds), fromDocuments = (\<lambda>ds. Inr (0::nat))\<rparr> ''u''
      [(\<lparr>getRelevantDocuments = (\<lambda>vs q. Inr []), formatMessages = (\<lambda>c q. Inr []),
         invoke = (\<lambda>ms. Inr ''fine'')\<rparr>, ''a question'')]
     = (1, [Starting, ReceivedUrl ''u'', DownloadFailed ''Not Found''])
   \<and> program \<lparr>fetch = (\<lambda>u. Inr \<lparr>ok = True, statusText = ''OK'', body = Inr ''# title''\<rparr>),
            splitDocuments = (\<lambda>ds. Inr ds),
            fromDocuments = (\<lambda>ds. Inl (Error EmbeddingError ''no model'') :: error + nat)\<rparr> ''u''
      [(\<lparr>getRelevantDocuments = (\<lambda>vs q. Inr []), formatMessages = (\<lambda>c q. Inr []),
         invoke = (\<lambda>ms. Inr ''fine'')\<rparr>, ''a question'')]
     = (1, [Starting, ReceivedUrl ''u'', ChunksCreated 1, StoreFailed (Error EmbeddingError ''no model'')])"
  using
    indexing_failure_is_fatal [where url = "''u''" and e = "Error SourceUnavailable ''no route''"
      and env = "\<lparr>fetch = (\<lambda>u. Inl (Error SourceUnavailable ''no route'')),
            splitDocuments = (\<lambda>ds. Inr ds), fromDocuments = (\<lambda>ds. Inr (0::nat))\<rparr>"]
    indexing_failure_is_fatal [where url = "''u''"
      and r = "\<lparr>ok = False, statusText = ''Not Found'', body = Inr []\<rparr>"
      and env = "\<lparr>fetch = (\<lambda>u. Inr \<lparr>ok = False, statusText = ''Not Found'', body = Inr []\<rparr>),
            splitDocuments = (\<lambda>ds. Inr ds), fromDocuments = (\<lambda>ds. Inr (0::nat))\<rparr>"]
    indexing_failure_is_fatal [where url = "''u''" and e = "Error EmbeddingError ''no model''"
      and r = "\<lparr>ok = True, statusText = ''OK'', body = Inr ''# title''\<rparr>"
      and markdown = "''# title''"
      and chunks = "[\<lparr>pageContent = ''# title'', source = ''u'', sequenceIndex = 0\<rparr>]"
      and env = "\<lparr>fetch = (\<lambda>u. Inr \<lparr>ok = True, statusText = ''OK'', body = Inr ''# title''\<rparr>),
            splitDocuments = (\<lambda>ds. Inr ds),
            fromDocuments = (\<lambda>ds. Inl (Error EmbeddingError ''no model'') :: error + nat)\<rparr>"]
  by simp

section \<open>Properties of the vector index\<close>

text \<open>
  C3. The results of a query are in descending order of score, and results of equal score
  are in ascending order of their sequence index.
\<close>

theorem query_sorted:
  assumes "query idx q k = Inr res"
  shows "sorted_wrt (\<lambda>(d1, s1) (d2, s2). s2 < s1 \<or> (s1 = s2 \<and> sequenceIndex d1 \<le> sequenceIndex d2))
           res"
proof -
  let ?key = "\<lambda>(d, score :: real). (- score, sequenceIndex d)"
  let ?xs = "map (\<lambda>e. (segment e, cosine q (vector e))) (entries idx)"
  from assms have res: "res = take k (sort_key ?key ?xs)"
    by (auto simp: query_def split: if_splits)
  have "sorted (map ?key (sort_key ?key ?xs))"
    by (rule sorted_sort_key)
  then have "sorted_wrt (\<lambda>x y. ?key x \<le> ?key y) (sort_key ?key ?xs)"
    by (simp add: sorted_map)
  then have "sorted_wrt (\<lambda>x y. ?key x \<le> ?key y) res"
    unfolding res by (rule sorted_wrt_take)
  then show ?thesis
    by (rule sorted_wrt_mono_rel [rotated]) (auto simp: less_eq_prod_def)
qed

theorem query_sorted_witness:
  "query \<lparr>dimension = 2,
          entries = [\<lparr>vector = [1, 0], segment = \<lparr>pageContent = ''a'', source = ''u'', sequenceIndex = 0\<rparr>\<rparr>,
                     \<lparr>vector = [0, 1], segment = \<lparr>pageContent = ''b'', source = ''u'', sequenceIndex = 1\<rparr>\<rparr>,
                     \<lparr>vector = [1, 0], segment = \<lparr>pageContent = ''c'', source = ''u'', sequenceIndex = 2\<rparr>\<rparr>]\<rparr>
     [1, 0] 5
     = Inr [(\<lparr>pageContent = ''a'', source = ''u'', sequenceIndex = 0\<rparr>, 1),
            (\<lparr>pageContent = ''c'', source = ''u'', sequenceIndex = 2\<rparr>, 1),
            (\<lparr>pageContent = ''b'', source = ''u'', sequenceIndex = 1\<rparr>, 0)]
   \<and> sorted_wrt (\<lambda>(d1, s1) (d2, s2). s2 < s1 \<or> (s1 = s2 \<and> sequenceIndex d1 \<le> sequenceIndex d2))
       [(\<lparr>pageContent = ''a'', source = ''u'', sequenceIndex = 0\<rparr>, 1 :: real),
        (\<lparr>pageContent = ''c'', source = ''u'', sequenceIndex = 2\<rparr>, 1),
        (\<lparr>pageContent = ''b'', source = ''u'', sequenceIndex = 1\<rparr>, 0)]"
proof -
  have a: "query \<lparr>dimension = 2,
          entries = [\<lparr>vector = [1, 0], segment = \<lparr>pageContent = ''a'', source = ''u'', sequenceIndex = 0\<rparr>\<rparr>,
                     \<lparr>vector = [0, 1], segment = \<lparr>pageContent = ''b'', source = ''u'', sequenceIndex = 1\<rparr>\<rparr>,
                     \<lparr>vector = [1, 0], segment = \<lparr>pageContent = ''c'', source = ''u'', sequenceIndex = 2\<rparr>\<rparr>]\<rparr>
     [1, 0] 5
     = Inr [(\<lparr>pageContent = ''a'', source = ''u'', sequenceIndex = 0\<rparr>, 1),
            (\<lparr>pageContent = ''c'', source = ''u'', sequenceIndex = 2\<rparr>, 1),
            (\<lparr>pageContent = ''b'', source = ''u'', sequenceIndex = 1\<rparr>, 0)]"
    by (simp add: query_def cosine_def dot_def less_eq_prod_def)
  from a query_sorted [OF a] show ?thesis
    by (rule conjI)
qed

lemma build_entries: "build es = Inr idx \<Longrightarrow> entries idx \<noteq> []"
  by (auto simp: build_def split: list.splits if_splits)

lemma index_documents_Nil: "index_documents embedder [] = Inl (Error EmptyIndex [])"
  by (simp add: index_documents_def build_def)

lemma index_documents_entries: "index_documents embedder chunks = Inr idx \<Longrightarrow> entries idx \<noteq> []"
  by (auto simp: index_documents_def split: sum.splits dest: build_entries)

lemma main_Ready:
  "main env url = (t, Ready vs) \<Longrightarrow> \<exists>chunks. fromDocuments env chunks = Inr vs"
  by (auto simp: main_def Let_def split: sum.splits if_splits)

text \<open>
  C4. Building the index from no entries fails with EmptyIndex. When the splitter returns
  no chunk, \<open>main\<close> reports that failure and exits with status 1 before the line handler
  is installed; and an index with which \<open>main\<close> becomes ready has at least one entry.
\<close>

theorem empty_index_is_fatal:
  "build [] = Inl (Error EmptyIndex [])
   \<and> (fetch env url = Inr r \<and> ok r \<and> body r = Inr markdown
        \<and> splitDocuments env [\<lparr>pageContent = markdown, source = url, sequenceIndex = 0\<rparr>] = Inr []
        \<and> fromDocuments env = index_documents embedder \<longrightarrow>
      program env url lines =
        (1, [Starting, ReceivedUrl url, ChunksCreated 0, StoreFailed (Error EmptyIndex [])]))
   \<and> (fromDocuments env = index_documents embedder \<and> main env url = (t, Ready idx) \<longrightarrow>
      entries idx \<noteq> [])"
proof (intro conjI impI)
  show "build [] = Inl (Error EmptyIndex [])"
    by (simp add: build_def)
next
  assume "fetch env url = Inr r \<and> ok r \<and> body r = Inr markdown
        \<and> splitDocuments env [\<lparr>pageContent = markdown, source = url, sequenceIndex = 0\<rparr>] = Inr []
        \<and> fromDocuments env = index_documents embedder"
  then show "program env url lines =
        (1, [Starting, ReceivedUrl url, ChunksCreated 0, StoreFailed (Error EmptyIndex [])])"
    by (simp add: program_def main_def index_documents_Nil)
next
  assume a: "fromDocuments env = index_documents embedder \<and> main env url = (t, Ready idx)"
  then obtain chunks where "fromDocuments env chunks = Inr idx"
    using main_Ready [of env url t idx] by auto
  with a show "entries idx \<noteq> []"
    by (simp add: index_documents_entries)
qed

theorem empty_index_is_fatal_witness:
  "program \<lparr>fetch = (\<lambda>u. Inr \<lparr>ok = True, statusText = ''OK'', body = Inr []\<rparr>),
            splitDocuments = (\<lambda>ds. Inr []),
            fromDocuments = index_documents (\<lambda>t. Inr [1, 0])\<rparr> ''u''
      [(\<lparr>getRelevantDocuments = (\<lambda>idx q. Inr []), formatMessages = (\<lambda>c q. Inr []),
         invoke = (\<lambda>ms. Inr ''fine'')\<rparr>, ''a question'')]
     = (1, [Starting, ReceivedUrl ''u'', ChunksCreated 0, StoreFailed (Error EmptyIndex [])])"
  using empty_index_is_fatal [where url = "''u''" and markdown = "[]"
      and embedder = "\<lambda>t. Inr [1, 0]"
      and r = "\<lparr>ok = True, statusText = ''OK'', body = Inr []\<rparr>"
      and env = "\<lparr>fetch = (\<lambda>u. Inr \<lparr>ok = True, statusText = ''OK'', body = Inr []\<rparr>),
            splitDocuments = (\<lambda>ds. Inr []),
            fromDocuments = index_documents (\<lambda>t. Inr [1, 0])\<rparr>"]
  by simp

section \<open>Properties of the chunker\<close>

lemma pieces_characters:
  "maxSize < length t \<Longrightarrow>
   pieces maxSize [[]] g t = map (\<lambda>c. \<lparr>glue = [], content = [c]\<rparr>) t"
  by (simp add: split_on_def glue_of_def comp_def filter_map concat_map_singleton)

lemma add_character: "add_piece buf \<lparr>glue = [], content = [c]\<rparr> = buf @ [c]"
  by (simp add: add_piece_def)

lemma pack_fits:
  "length buf + length t \<le> maxSize \<Longrightarrow>
   pack maxSize overlap buf (map (\<lambda>c. \<lparr>glue = [], content = [c]\<rparr>) t)
     = (if buf @ t = [] then [] else [buf @ t])"
  by (induction t arbitrary: buf) (auto simp: add_character)

lemma pack_overflows:
  "length buf + length t1 = maxSize \<Longrightarrow> buf @ t1 \<noteq> [] \<Longrightarrow>
   pack maxSize overlap buf (map (\<lambda>c. \<lparr>glue = [], content = [c]\<rparr>) (t1 @ c # t2))
     = (buf @ t1) # pack maxSize overlap (trailing overlap (buf @ t1) @ [c])
                      (map (\<lambda>c. \<lparr>glue = [], content = [c]\<rparr>) t2)"
proof (induction t1 arbitrary: buf)
  case Nil
  then show ?case by (simp add: add_character)
next
  case (Cons x t1)
  from Cons.prems have "\<not> (buf \<noteq> [] \<and> maxSize < length (buf @ [x]))"
    by simp
  moreover have "length (buf @ [x]) + length t1 = maxSize" "(buf @ [x]) @ t1 \<noteq> []"
    using Cons.prems by simp_all
  ultimately show ?case
    using Cons.IH [of "buf @ [x]"] by (simp add: add_character)
qed

lemma not_sublist_replicate:
  "x \<in> set sep \<Longrightarrow> x \<noteq> c \<Longrightarrow> \<not> sublist sep (replicate n c)"
  by (auto dest!: set_mono_sublist simp: set_replicate_conv_if split: if_splits)

lemma pack_As:
  "pack 1000 200 [] (map (\<lambda>c. \<lparr>glue = [], content = [c]\<rparr>) (replicate 1500 CHR ''A''))
    = [replicate 1000 CHR ''A'', replicate 700 CHR ''A'']"
proof -
  have split: "replicate 1500 CHR ''A'' = replicate 1000 CHR ''A'' @ CHR ''A'' # replicate 499 CHR ''A''"
    by (simp add: replicate_add [symmetric] replicate_append_same del: replicate_Suc flip: replicate_Suc)
  have tail: "trailing 200 (replicate 1000 CHR ''A'') @ [CHR ''A''] = replicate 201 CHR ''A''"
    by (simp add: trailing_def replicate_append_same del: replicate_Suc flip: replicate_Suc)
  have rest: "pack 1000 200 (replicate 201 CHR ''A'') (map (\<lambda>c. \<lparr>glue = [], content = [c]\<rparr>) (replicate 499 CHR ''A''))
      = [replicate 700 CHR ''A'']"
    using pack_fits [of "replicate 201 CHR ''A''" "replicate 499 CHR ''A''" 1000 200]
    by (simp add: replicate_add [symmetric] del: replicate_Suc)
  have "pack 1000 200 [] (map (\<lambda>c. \<lparr>glue = [], content = [c]\<rparr>) (replicate 1000 CHR ''A'' @ CHR ''A'' # replicate 499 CHR ''A''))
    = replicate 1000 CHR ''A'' # pack 1000 200 (trailing 200 (replicate 1000 CHR ''A'') @ [CHR ''A''])
         (map (\<lambda>c. \<lparr>glue = [], content = [c]\<rparr>) (replicate 499 CHR ''A''))"
    using pack_overflows [of "[]" "replicate 1000 CHR ''A''" 1000 200 "CHR ''A''" "replicate 499 CHR ''A''"]
    by (simp del: replicate_Suc)
  then show ?thesis
    by (simp only: split tail rest)
qed

lemma pieces_As:
  "pieces 1000 [[]] [] (replicate 1500 CHR ''A'')
     = map (\<lambda>c. \<lparr>glue = [], content = [c]\<rparr>) (replicate 1500 CHR ''A'')"
  by (rule pieces_characters) simp

lemma pieces_As_configured:
  "pieces 1000 [blankLine, [CHR 0x0A], '' '', []] [] (replicate 1500 CHR ''A'')
     = pieces 1000 [[]] [] (replicate 1500 CHR ''A'')"
proof -
  have "\<not> sublist blankLine (replicate 1500 CHR ''A'')"
    by (rule not_sublist_replicate [of "CHR 0x0A"]) (simp_all add: blankLine_def)
  moreover have "\<not> sublist [CHR 0x0A] (replicate 1500 CHR ''A'')"
    by (rule not_sublist_replicate [of "CHR 0x0A"]) simp_all
  moreover have "\<not> sublist '' '' (replicate 1500 CHR ''A'')"
    by (rule not_sublist_replicate [of "CHR '' ''"]) simp_all
  moreover have "\<not> length (replicate 1500 CHR ''A'') \<le> 1000"
    by simp
  ultimately show ?thesis
    by (simp only: pieces.simps if_False if_True not_False_eq_True)
qed

text \<open>
  C6. The text of 1500 letters A, chunked with maxSize 1000 and overlap 200, gives
  exactly two Segments: the first of 1000 letters, the second of 700, and the first 200
  characters of the second are the last 200 of the first. This holds with the empty
  separator alone, as the scenario of the spec has it, and with the four separators that
  \<open>main\<close> configures.
\<close>

theorem chunk_1500_A:
  "chunk (replicate 1500 CHR ''A'') 1000 200 [[]]
     = Inr [replicate 1000 CHR ''A'', replicate 700 CHR ''A'']
   \<and> chunk (replicate 1500 CHR ''A'') 1000 200 [blankLine, [CHR 0x0A], '' '', []]
     = Inr [replicate 1000 CHR ''A'', replicate 700 CHR ''A'']
   \<and> (case chunk (replicate 1500 CHR ''A'') 1000 200 [[]] of
        Inr [first, second] \<Rightarrow>
          length first = 1000 \<and> length second = 700
          \<and> take 200 second = drop (length first - 200) first
      | _ \<Rightarrow> False)"
proof -
  have a: "chunk (replicate 1500 CHR ''A'') 1000 200 [[]]
     = Inr [replicate 1000 CHR ''A'', replicate 700 CHR ''A'']"
    using pack_As by (simp add: chunk_def pieces_As del: replicate_Suc pieces.simps)
  have b: "chunk (replicate 1500 CHR ''A'') 1000 200 [blankLine, [CHR 0x0A], '' '', []]
     = Inr [replicate 1000 CHR ''A'', replicate 700 CHR ''A'']"
    using pack_As
    by (simp add: chunk_def pieces_As_configured pieces_As del: replicate_Suc pieces.simps)
  have c: "take 200 (replicate 700 CHR ''A'') = drop (1000 - 200) (replicate 1000 CHR ''A'')"
    by (simp del: replicate_Suc)
  show ?thesis
    unfolding a b using c by (simp del: replicate_Suc)
qed

end
